theory Spec2Isabelle
  imports Main "HOL-Library.Sublist"
begin

section \<open>md-wrap: the markdown reflow engine of cmd/md-wrap/main.go\<close>

text \<open>
  A Go string is modelled as the list of its runes, written as an Isabelle \<open>string\<close>.
  The predicates of Go's \<open>unicode\<close> package are modelled on the ASCII range: the
  white space runes are tab, line feed, vertical tab, form feed, carriage return and
  space, the digits are \<open>0\<close> to \<open>9\<close>, and every white space rune is one byte long.
  Every other character stands for a rune that is neither white space nor a digit.
  The byte offsets the program computes only ever count white space and marker
  characters, so on such text they are offsets into the list of runes.
\<close>

subsection \<open>Library functions\<close>

definition IsSpace :: "char \<Rightarrow> bool" where
  "IsSpace r = (r = CHR 0x09 \<or> r = CHR 0x0A \<or> r = CHR 0x0B \<or> r = CHR 0x0C
     \<or> r = CHR 0x0D \<or> r = CHR '' '')"

definition IsDigit :: "char \<Rightarrow> bool" where
  "IsDigit r = (r = CHR ''0'' \<or> r = CHR ''1'' \<or> r = CHR ''2'' \<or> r = CHR ''3''
     \<or> r = CHR ''4'' \<or> r = CHR ''5'' \<or> r = CHR ''6'' \<or> r = CHR ''7''
     \<or> r = CHR ''8'' \<or> r = CHR ''9'')"

text \<open>\<open>utf8.RuneLen\<close>, which the program only applies to white space runes.\<close>

definition RuneLen :: "char \<Rightarrow> nat" where
  "RuneLen r = 1"

definition HasPrefix :: "string \<Rightarrow> string \<Rightarrow> bool" where
  "HasPrefix s p = (length p \<le> length s \<and> take (length p) s = p)"

definition HasSuffix :: "string \<Rightarrow> string \<Rightarrow> bool" where
  "HasSuffix s x = (length x \<le> length s \<and> drop (length s - length x) s = x)"

definition TrimRightSpace :: "string \<Rightarrow> string" where
  "TrimRightSpace s = rev (dropWhile IsSpace (rev s))"

definition TrimSpace :: "string \<Rightarrow> string" where
  "TrimSpace s = TrimRightSpace (dropWhile IsSpace s)"

definition Repeat :: "string \<Rightarrow> nat \<Rightarrow> string" where
  "Repeat s n = concat (replicate n s)"

text \<open>
  A slice expression \<open>s[n:]\<close> panics when \<open>n\<close> is beyond the length of \<open>s\<close>;
  the panic is the value \<open>None\<close>.
\<close>

definition sliceFrom :: "string \<Rightarrow> nat \<Rightarrow> string option" where
  "sliceFrom s n = (if n \<le> length s then Some (drop n s) else None)"

text \<open>
  A scanner with the split function \<open>bufio.ScanWords\<close>: the tokens are the maximal
  runs of runes that are not white space.
\<close>

function ScanWords :: "string \<Rightarrow> string list" where
  "ScanWords s =
     (case dropWhile IsSpace s of
        [] \<Rightarrow> []
      | c # cs \<Rightarrow> takeWhile (\<lambda>r. \<not> IsSpace r) (c # cs)
                 # ScanWords (dropWhile (\<lambda>r. \<not> IsSpace r) (c # cs)))"
  by pat_completeness auto
termination
proof (relation "measure length")
  show "wf (measure length)" by simp
next
  fix s :: string and c cs
  assume a: "dropWhile IsSpace s = c # cs"
  have nsp: "\<not> IsSpace c" using a by (metis hd_dropWhile list.sel(1) list.distinct(1))
  have "length (dropWhile (\<lambda>r. \<not> IsSpace r) (c # cs)) \<le> length cs"
    using nsp by (simp add: length_dropWhile_le)
  also have "length cs < length (dropWhile IsSpace s)" using a by simp
  also have "\<dots> \<le> length s" by (rule length_dropWhile_le)
  finally show "(dropWhile (\<lambda>r. \<not> IsSpace r) (c # cs), s) \<in> measure length" by simp
qed

declare ScanWords.simps [simp del]

subsection \<open>Input and output streams\<close>

text \<open>
  The output stream is an \<open>io.Writer\<close>. \<open>written\<close> holds the lines that reached
  the stream, each followed there by the line break of \<open>Fprintln\<close>; \<open>faults\<close> is the
  fate of the coming calls, \<open>True\<close> for a call that fails and writes nothing, and a
  call beyond the list succeeds.
\<close>

datatype io_error = ReadFailure | WriteFailure

record writer =
  written :: "string list"
  faults :: "bool list"

definition Fprintln :: "writer \<Rightarrow> string \<Rightarrow> writer \<times> io_error option" where
  "Fprintln w s =
     (case faults w of
        [] \<Rightarrow> (w\<lparr>written := written w @ [s]\<rparr>, None)
      | b # bs \<Rightarrow>
          if b then (w\<lparr>faults := bs\<rparr>, Some WriteFailure)
          else (w\<lparr>written := written w @ [s], faults := bs\<rparr>, None))"

text \<open>
  The input is what a \<open>bufio.Scanner\<close> with the default split function delivers:
  the lines, without their terminators, and then the end of the stream, which is the
  end of the input or a read error that \<open>Err\<close> would report.
\<close>

record scanner =
  tokens :: "string list"
  err :: "io_error option"

subsection \<open>Classifiers\<close>

text \<open>
  The loop of \<open>countQuoteDepth\<close> over the runes of the line; its variables are
  \<open>bytes\<close>, \<open>consumedSpaceAfter\<close> and the results \<open>depth\<close> and \<open>len\<close>.
\<close>

fun quoteLoop :: "string \<Rightarrow> nat \<Rightarrow> bool \<Rightarrow> nat \<Rightarrow> nat \<Rightarrow> nat \<times> nat" where
  "quoteLoop [] bytes consumedSpaceAfter depth len = (depth, len)"
| "quoteLoop (r # rs) bytes consumedSpaceAfter depth len =
     (if IsSpace r then
        (if \<not> consumedSpaceAfter
         then quoteLoop rs (bytes + RuneLen r) True depth (bytes + RuneLen r)
         else quoteLoop rs (bytes + RuneLen r) consumedSpaceAfter depth len)
      else if r = CHR ''>'' then quoteLoop rs (bytes + 1) False (depth + 1) (bytes + 1)
      else (depth, len))"

definition countQuoteDepth :: "string \<Rightarrow> nat \<times> nat" where
  "countQuoteDepth line = quoteLoop line 0 True 0 0"

datatype listType = noList | numList | bulletList

fun symbol :: "listType \<Rightarrow> string" where
  "symbol numList = ''1.''"
| "symbol bulletList = ''*''"
| "symbol noList = ''''"

fun runes :: "listType \<Rightarrow> nat" where
  "runes numList = 2"
| "runes bulletList = 1"
| "runes noList = 0"

record listState =
  "typ" :: listType
  indent :: nat
  indentBytes :: nat

definition emptyList :: listState where
  "emptyList = \<lparr>typ = noList, indent = 0, indentBytes = 0\<rparr>"

text \<open>
  The loop of \<open>countListIndent\<close>. At the rune \<open>r\<close> of index \<open>i\<close> the rest \<open>rs\<close>
  of the list holds \<open>runes[i+1]\<close> and \<open>runes[i+2]\<close>, and \<open>len(runes) <= i+2\<close>
  says that \<open>rs\<close> has fewer than two elements.
\<close>

fun listLoop :: "string \<Rightarrow> listState \<Rightarrow> listState" where
  "listLoop [] l = l"
| "listLoop (r # rs) l =
     (if IsSpace r then
        listLoop rs (l\<lparr>indent := indent l + 1, indentBytes := indentBytes l + RuneLen r\<rparr>)
      else if IsDigit r then
        (if length rs < 2 then l
         else if rs ! 0 = CHR ''.'' \<and> IsSpace (rs ! 1) then l\<lparr>typ := numList\<rparr>
         else l)
      else if r = CHR ''*'' then l\<lparr>typ := bulletList\<rparr>
      else l)"

definition countListIndent :: "string \<Rightarrow> listState" where
  "countListIndent line = listLoop line emptyList"

definition endsSentence :: "string \<Rightarrow> bool" where
  "endsSentence word =
     ((HasSuffix word ''.'' \<or> HasSuffix word [CHR ''.'', CHR 0x22]
        \<or> HasSuffix word [CHR ''.'', CHR 0x27])
      \<and> \<not> HasSuffix word ''e.g.''
      \<and> \<not> HasSuffix word ''vs.''
      \<and> \<not> HasSuffix word ''i.e.'')"

subsection \<open>The formatter state\<close>

record fmtState =
  charsPerLine :: int
  newLine :: string
  newLineRunes :: nat
  inCode :: bool
  listS :: listState
  appliedFirstList :: bool
  listPrefixFirst :: string
  listPrefixRest :: string
  out :: writer

definition newFmtState :: "int \<Rightarrow> writer \<Rightarrow> fmtState" where
  "newFmtState c w =
     \<lparr>charsPerLine = c, newLine = [], newLineRunes = 0, inCode = False,
      listS = emptyList, appliedFirstList = False, listPrefixFirst = [],
      listPrefixRest = [], out = w\<rparr>"

definition setListState :: "fmtState \<Rightarrow> listState \<Rightarrow> fmtState" where
  "setListState f l =
     (if typ l \<noteq> noList then
        f\<lparr>listS := l, appliedFirstList := False,
          listPrefixFirst := Repeat '' '' (indent l) @ symbol (typ l) @ '' '',
          listPrefixRest := Repeat '' '' (indent l + runes (typ l) + 1)\<rparr>
      else f\<lparr>listS := l, listPrefixFirst := [], listPrefixRest := []\<rparr>)"

definition writeToLine :: "fmtState \<Rightarrow> string \<Rightarrow> fmtState" where
  "writeToLine f s = f\<lparr>newLine := newLine f @ s, newLineRunes := newLineRunes f + length s\<rparr>"

text \<open>\<open>flushLine\<close> drops what \<open>Fprintln\<close> returns, as the program does.\<close>

definition flushLine :: "fmtState \<Rightarrow> fmtState" where
  "flushLine f =
     f\<lparr>out := fst (Fprintln (out f) (TrimRightSpace (newLine f))),
       newLineRunes := 0, newLine := []\<rparr>"

text \<open>The recurring \<open>if f.newLineRunes != 0 { f.flushLine() }\<close>.\<close>

definition flushPending :: "fmtState \<Rightarrow> fmtState" where
  "flushPending f = (if newLineRunes f \<noteq> 0 then flushLine f else f)"

text \<open>
  One turn of the loop over the words of a line. The loop changes the formatter state
  and the local variable \<open>listPrefix\<close>; \<open>quotePrefix\<close> stays as it is.
  \<open>placeWord\<close> is the turn up to and including \<open>f.writeToLine(word)\<close>, and
  \<open>wordStep\<close> is the whole turn, which ends with the test of \<open>endsSentence\<close>.
\<close>

definition placeWord :: "string \<Rightarrow> fmtState \<times> string \<Rightarrow> string \<Rightarrow> fmtState \<times> string" where
  "placeWord quotePrefix st word =
     (let f = fst st; listPrefix = snd st;
          f1 = (if newLineRunes f \<noteq> 0
                   \<and> int (newLineRunes f + length word) > charsPerLine f
                then flushLine f else f);
          st2 = (if newLineRunes f1 = 0 then
                   (let g = writeToLine (writeToLine f1 quotePrefix) listPrefix in
                    if \<not> appliedFirstList g
                    then (g\<lparr>appliedFirstList := True\<rparr>, listPrefixRest g)
                    else (g, listPrefix))
                 else (f1, listPrefix))
      in (writeToLine (fst st2) word, snd st2))"

definition wordStep :: "string \<Rightarrow> fmtState \<times> string \<Rightarrow> string \<Rightarrow> fmtState \<times> string" where
  "wordStep quotePrefix st word =
     (let st3 = placeWord quotePrefix st word
      in (if endsSentence word then flushLine (fst st3) else writeToLine (fst st3) '' '',
          snd st3))"

text \<open>
  The part of the loop body of \<open>process\<close> for a line outside a code block, in three
  pieces: \<open>updateList\<close> brings the list state up to date with the list state
  \<open>newList\<close> read from the line, \<open>chooseListPrefix\<close> sets the local variable
  \<open>listPrefix\<close>, and \<open>reflowLine\<close> is the whole, from \<open>countQuoteDepth\<close> to the
  end of the loop over the words.
\<close>

definition updateList :: "fmtState \<Rightarrow> listState \<Rightarrow> fmtState" where
  "updateList f newList =
     (if typ newList \<noteq> noList then setListState (flushPending f) newList
      else if typ (listS f) \<noteq> noList
              \<and> indent newList \<noteq> indent (listS f) + runes (typ (listS f)) + 1
      then setListState (flushPending f) emptyList
      else f)"

definition chooseListPrefix :: "fmtState \<Rightarrow> listState \<Rightarrow> string" where
  "chooseListPrefix f newList =
     (if typ (listS f) \<noteq> noList
      then (if typ newList \<noteq> noList then listPrefixFirst f else listPrefixRest f)
      else [])"

definition reflowLine :: "fmtState \<Rightarrow> string \<Rightarrow> fmtState option" where
  "reflowLine f line0 =
     (let quoteDepth = fst (countQuoteDepth line0);
          quoteLen = snd (countQuoteDepth line0);
          quotePrefix = Repeat ''> '' quoteDepth
      in case sliceFrom line0 quoteLen of
           None \<Rightarrow> None
         | Some line \<Rightarrow>
             (let newList = countListIndent line;
                  f1 = updateList f newList;
                  listPrefix = chooseListPrefix f1 newList
              in case sliceFrom line (indentBytes (listS f1) + length (symbol (typ (listS f1)))) of
                   None \<Rightarrow> None
                 | Some rest \<Rightarrow>
                     Some (fst (foldl (wordStep quotePrefix) (f1, listPrefix) (ScanWords rest)))))"

text \<open>The loop body of \<open>process\<close>: one line of the input.\<close>

definition processLine :: "fmtState \<Rightarrow> string \<Rightarrow> fmtState option" where
  "processLine f line =
     (let trimmedLine = TrimSpace line in
      if HasPrefix trimmedLine ''```'' then
        (let f1 = (if \<not> inCode f then setListState (flushPending f) emptyList else f);
             f2 = f1\<lparr>inCode := \<not> inCode f1\<rparr>
         in Some (flushLine (writeToLine f2 trimmedLine)))
      else if length trimmedLine = 0 then
        Some (flushLine (setListState (flushPending f) emptyList))
      else if inCode f then Some (flushLine (writeToLine f line))
      else reflowLine f line)"

fun processLines :: "fmtState \<Rightarrow> string list \<Rightarrow> fmtState option" where
  "processLines f [] = Some f"
| "processLines f (line # rest) =
     (case processLine f line of None \<Rightarrow> None | Some f' \<Rightarrow> processLines f' rest)"

text \<open>
  \<open>process\<close>: the loop runs while \<open>Scan\<close> delivers a line and ends when it does not,
  at the end of the input or at a read error; \<open>Err\<close> is never consulted. It has no
  result but the state it leaves.
\<close>

definition process :: "fmtState \<Rightarrow> scanner \<Rightarrow> fmtState option" where
  "process f s =
     (case processLines f (tokens s) of
        None \<Rightarrow> None
      | Some f' \<Rightarrow> Some (flushPending f'))"

subsection \<open>Predicates of the statements\<close>

text \<open>
  What holds of every state the program reaches: the rune count is the length of the
  pending line, inside a code block nothing is pending, and the list state is the one
  of no list, with an empty prefix, or was read from a line.
\<close>

definition inv :: "fmtState \<Rightarrow> bool" where
  "inv f \<longleftrightarrow>
     newLineRunes f = length (newLine f)
     \<and> (inCode f \<longrightarrow> newLine f = [])
     \<and> indentBytes (listS f) = indent (listS f)
     \<and> (typ (listS f) = noList \<longrightarrow> indent (listS f) = 0 \<and> listPrefixRest f = [])"


text \<open>
  The lines that get through a writer: \<open>survivors bs ls\<close> is \<open>ls\<close> without the
  lines whose call is marked as failing in \<open>bs\<close>.
\<close>

fun survivors :: "bool list \<Rightarrow> string list \<Rightarrow> string list" where
  "survivors bs [] = []"
| "survivors [] ls = ls"
| "survivors (b # bs) (l # ls) = (if b then survivors bs ls else l # survivors bs ls)"













section \<open>Facts about the model\<close>

subsection \<open>Facts about the library functions\<close>

lemma IsSpace_space [simp]: "IsSpace CHR '' ''"
  by (simp add: IsSpace_def)


lemma TrimRightSpace_Nil [simp]: "TrimRightSpace [] = []"
  by (simp add: TrimRightSpace_def)

lemma TrimRightSpace_snoc:
  "TrimRightSpace (s @ [c]) = (if IsSpace c then TrimRightSpace s else s @ [c])"
  by (simp add: TrimRightSpace_def)


lemma TrimRightSpace_fixed:
  "s = [] \<or> \<not> IsSpace (last s) \<Longrightarrow> TrimRightSpace s = s"
  by (cases s rule: rev_cases) (simp_all add: TrimRightSpace_snoc)

lemma TrimRightSpace_last: "TrimRightSpace s = [] \<or> \<not> IsSpace (last (TrimRightSpace s))"
  by (induction s rule: rev_induct) (simp_all add: TrimRightSpace_snoc)

lemma TrimRightSpace_idem [simp]: "TrimRightSpace (TrimRightSpace s) = TrimRightSpace s"
  using TrimRightSpace_last [of s] by (rule TrimRightSpace_fixed)

lemma TrimRightSpace_TrimSpace [simp]: "TrimRightSpace (TrimSpace s) = TrimSpace s"
  by (simp add: TrimSpace_def)



lemma Fprintln_ok [simp]:
  "faults w = [] \<Longrightarrow> Fprintln w s = (w\<lparr>written := written w @ [s]\<rparr>, None)"
  by (simp add: Fprintln_def)

lemma ScanWords_Nil [simp]: "ScanWords [] = []"
  by (simp add: ScanWords.simps)

lemma ScanWords_space [simp]: "IsSpace c \<Longrightarrow> ScanWords (c # s) = ScanWords s"
  by (subst (1 2) ScanWords.simps) simp

lemma ScanWords_word [simp]:
  "\<not> IsSpace c \<Longrightarrow>
   ScanWords (c # s) =
     (c # takeWhile (\<lambda>r. \<not> IsSpace r) s) # ScanWords (dropWhile (\<lambda>r. \<not> IsSpace r) s)"
  by (subst ScanWords.simps) simp










lemma HasSuffix_suffix: "HasSuffix s x \<longleftrightarrow> suffix x s"
proof
  assume "HasSuffix s x"
  then have "s = take (length s - length x) s @ x"
    by (metis HasSuffix_def append_take_drop_id)
  then show "suffix x s" by (metis suffixI)
next
  assume "suffix x s"
  then obtain ys where "s = ys @ x" by (auto simp: suffix_def)
  then show "HasSuffix s x" by (simp add: HasSuffix_def)
qed

subsection \<open>The invariant of the formatter state\<close>

lemmas ops_defs = writeToLine_def flushLine_def flushPending_def setListState_def








lemma flushPending_flushed [simp]:
  "newLineRunes (flushPending f) = 0"
  by (simp add: flushPending_def flushLine_def)

lemma inv_empty: "inv f \<Longrightarrow> newLineRunes f = 0 \<Longrightarrow> newLine f = []"
  by (simp add: inv_def)

lemma flushPending_idle: "newLineRunes f = 0 \<Longrightarrow> flushPending f = f"
  by (simp add: flushPending_def)

lemma flushPending_idem [simp]: "flushPending (flushPending f) = flushPending f"
  by (simp add: flushPending_idle)












lemma processLines_append:
  "processLines f (xs @ ys)
     = (case processLines f xs of None \<Rightarrow> None | Some g \<Rightarrow> processLines g ys)"
  by (induction xs arbitrary: f) (simp_all split: option.splits)

subsection \<open>A writer that never fails\<close>










subsection \<open>Evaluation and the word loop\<close>

lemmas line_defs =
  processLine_def reflowLine_def updateList_def chooseListPrefix_def
  emptyList_def countQuoteDepth_def countListIndent_def
  sliceFrom_def HasPrefix_def TrimSpace_def TrimRightSpace_def Repeat_def
  IsSpace_def IsDigit_def RuneLen_def Let_def

lemmas word_defs =
  wordStep_def placeWord_def ops_defs endsSentence_def HasSuffix_def TrimRightSpace_def
  IsSpace_def Fprintln_def Let_def

lemma placeWord_suffix: "suffix word (newLine (fst (placeWord q st word)))"
  by (simp add: placeWord_def Let_def ops_defs suffix_def)

lemma endsSentence_last: "endsSentence word \<Longrightarrow> word \<noteq> [] \<and> \<not> IsSpace (last word)"
  by (auto simp: endsSentence_def HasSuffix_suffix suffix_def IsSpace_def)


subsection \<open>A writer that fails\<close>

lemma survivors_Nil [simp]: "survivors [] ls = ls"
  by (cases ls) simp_all


















subsection \<open>The lines of a list item\<close>

























subsection \<open>Lines without markers\<close>














section \<open>The claims\<close>

subsection \<open>C1: boundaries flush the pending line\<close>




subsection \<open>C2: the width\<close>



subsection \<open>C3: the sentence-end predicate\<close>

text \<open>
  Claim C3. For every word, \<open>endsSentence\<close> holds exactly when the word ends with
  a full stop, a full stop and a double quote, or a full stop and a single quote, and
  ends with none of the abbreviations \<open>e.g.\<close>, \<open>vs.\<close> and \<open>i.e.\<close>. The abbreviations
  win over the full stop, and they are compared case-sensitively: \<open>e.g.\<close> does not end
  a sentence, \<open>E.g.\<close> does.
\<close>

theorem endsSentence_suffixes:
  "(endsSentence word \<longleftrightarrow>
      (suffix ''.'' word \<or> suffix [CHR ''.'', CHR 0x22] word \<or> suffix [CHR ''.'', CHR 0x27] word)
      \<and> \<not> suffix ''e.g.'' word \<and> \<not> suffix ''vs.'' word \<and> \<not> suffix ''i.e.'' word)
   \<and> \<not> endsSentence ''e.g.'' \<and> \<not> endsSentence ''vs.'' \<and> \<not> endsSentence ''i.e.''
   \<and> endsSentence ''E.g.'' \<and> endsSentence ''Vs.'' \<and> endsSentence ''I.E.''"
proof -
  have "endsSentence word \<longleftrightarrow>
      (suffix ''.'' word \<or> suffix [CHR ''.'', CHR 0x22] word \<or> suffix [CHR ''.'', CHR 0x27] word)
      \<and> \<not> suffix ''e.g.'' word \<and> \<not> suffix ''vs.'' word \<and> \<not> suffix ''i.e.'' word"
    by (simp only: endsSentence_def HasSuffix_suffix)
  moreover have "\<not> endsSentence ''e.g.'' \<and> \<not> endsSentence ''vs.'' \<and> \<not> endsSentence ''i.e.''"
    by (simp add: endsSentence_def HasSuffix_def)
  moreover have "endsSentence ''E.g.'' \<and> endsSentence ''Vs.'' \<and> endsSentence ''I.E.''"
    by (simp add: endsSentence_def HasSuffix_def)
  ultimately show ?thesis by blast
qed

subsection \<open>C4: a sentence end flushes the line\<close>

text \<open>
  Claim C4. For every word of a line outside a code block, in every state: when the word
  ends a sentence, the buffer is flushed right after the word has been appended (the line
  handed to the writer is the buffer, which ends with the word, and the buffer is empty
  afterwards); otherwise one space is appended and nothing is written. So the input
  \<open>This is one. This is two.\<close>, at any width of at least 25, its own length, gives two
  output lines, one per sentence.
\<close>

theorem sentence_boundary:
  "(endsSentence word \<longrightarrow>
      newLine (fst (wordStep q st word)) = []
      \<and> newLineRunes (fst (wordStep q st word)) = 0
      \<and> out (fst (wordStep q st word))
          = fst (Fprintln (out (fst (placeWord q st word))) (newLine (fst (placeWord q st word)))))
   \<and> (\<not> endsSentence word \<longrightarrow>
      newLine (fst (wordStep q st word)) = newLine (fst (placeWord q st word)) @ '' ''
      \<and> out (fst (wordStep q st word)) = out (fst (placeWord q st word)))
   \<and> suffix word (newLine (fst (placeWord q st word)))
   \<and> (25 \<le> c \<longrightarrow>
      map_option (\<lambda>f. written (out f))
        (process (newFmtState c \<lparr>written = [], faults = []\<rparr>)
           \<lparr>tokens = [''This is one. This is two.''], err = e\<rparr>)
      = Some [''This is one.'', ''This is two.''])"
proof -
  let ?g = "fst (placeWord q st word)"
  have suf: "suffix word (newLine ?g)" by (rule placeWord_suffix)
  have trim: "TrimRightSpace (newLine ?g) = newLine ?g" if "endsSentence word"
  proof -
    from suf obtain p where p: "newLine ?g = p @ word" by (auto simp: suffix_def)
    have "word \<noteq> []" "\<not> IsSpace (last word)" using endsSentence_last [OF that] by simp_all
    then show ?thesis by (intro TrimRightSpace_fixed) (simp add: p)
  qed
  have a: "endsSentence word \<longrightarrow>
      newLine (fst (wordStep q st word)) = []
      \<and> newLineRunes (fst (wordStep q st word)) = 0
      \<and> out (fst (wordStep q st word)) = fst (Fprintln (out ?g) (newLine ?g))"
    using trim by (simp add: wordStep_def Let_def flushLine_def)
  have b: "\<not> endsSentence word \<longrightarrow>
      newLine (fst (wordStep q st word)) = newLine ?g @ '' ''
      \<and> out (fst (wordStep q st word)) = out ?g"
    by (simp add: wordStep_def Let_def writeToLine_def)
  have ex: "map_option (\<lambda>f. written (out f))
        (process (newFmtState c \<lparr>written = [], faults = []\<rparr>)
           \<lparr>tokens = [''This is one. This is two.''], err = e\<rparr>)
      = Some [''This is one.'', ''This is two.'']" if c: "25 \<le> c"
  proof -
    let ?w = "\<lparr>written = [], faults = []\<rparr>"
    let ?b = "\<lambda>ws b n. \<lparr>charsPerLine = c, newLine = b, newLineRunes = n, inCode = False,
        listS = \<lparr>typ = noList, indent = 0, indentBytes = 0\<rparr>, appliedFirstList = True,
        listPrefixFirst = [], listPrefixRest = [], out = \<lparr>written = ws, faults = []\<rparr>\<rparr>"
    have 1: "processLine (newFmtState c ?w) ''This is one. This is two.''
        = Some (fst (foldl (wordStep []) (newFmtState c ?w, [])
                       [''This'', ''is'', ''one.'', ''This'', ''is'', ''two.'']))"
      by (simp add: line_defs newFmtState_def)
    have 2: "wordStep [] (newFmtState c ?w, []) ''This'' = (?b [] ''This '' 5, [])"
      by (simp add: word_defs newFmtState_def emptyList_def)
    have 3: "wordStep [] (?b [] ''This '' 5, []) ''is'' = (?b [] ''This is '' 8, [])"
      using c by (simp add: word_defs)
    have 4: "wordStep [] (?b [] ''This is '' 8, []) ''one.'' = (?b [''This is one.''] [] 0, [])"
      using c by (simp add: word_defs)
    have 5: "wordStep [] (?b [''This is one.''] [] 0, []) ''This''
        = (?b [''This is one.''] ''This '' 5, [])"
      by (simp add: word_defs)
    have 6: "wordStep [] (?b [''This is one.''] ''This '' 5, []) ''is''
        = (?b [''This is one.''] ''This is '' 8, [])"
      using c by (simp add: word_defs)
    have 7: "wordStep [] (?b [''This is one.''] ''This is '' 8, []) ''two.''
        = (?b [''This is one.'', ''This is two.''] [] 0, [])"
      using c by (simp add: word_defs)
    show ?thesis
      by (simp add: process_def 1 2 3 4 5 6 7) (simp add: flushPending_def)
  qed
  show ?thesis using a b suf ex by blast
qed

theorem sentence_boundary_witness:
  "endsSentence ''one.'' \<and> \<not> endsSentence ''is'' \<and> (25::int) \<le> 80
   \<and> newLine (fst (wordStep [] (newFmtState 80 \<lparr>written = [], faults = []\<rparr>, []) ''one.'')) = []
   \<and> newLine (fst (wordStep [] (newFmtState 80 \<lparr>written = [], faults = []\<rparr>, []) ''is''))
      = newLine (fst (placeWord [] (newFmtState 80 \<lparr>written = [], faults = []\<rparr>, []) ''is'')) @ '' ''
   \<and> map_option (\<lambda>f. written (out f))
        (process (newFmtState 80 \<lparr>written = [], faults = []\<rparr>)
           \<lparr>tokens = [''This is one. This is two.''], err = None\<rparr>)
      = Some [''This is one.'', ''This is two.'']"
proof -
  have a: "endsSentence ''one.''" by (simp add: endsSentence_def HasSuffix_def)
  have b: "\<not> endsSentence ''is''" by (simp add: endsSentence_def HasSuffix_def)
  have c: "(25::int) \<le> 80" by simp
  show ?thesis
    using a b c
      sentence_boundary [of "''one.''" "[]" "(newFmtState 80 \<lparr>written = [], faults = []\<rparr>, [])" 80 None]
      sentence_boundary [of "''is''" "[]" "(newFmtState 80 \<lparr>written = [], faults = []\<rparr>, [])" 80 None]
    by blast
qed

subsection \<open>C5: code fences\<close>




subsection \<open>C6: lines of a code block\<close>

text \<open>
  Claim C6 says that a line between two fences is emitted unmodified. The program hands
  it to \<open>flushLine\<close>, which trims trailing white space: the code line \<open>x = 1\<close>
  followed by two spaces is written without them.
\<close>

theorem code_line_trailing_space:
  "map_option (\<lambda>f. written (out f))
     (process (newFmtState 80 \<lparr>written = [], faults = []\<rparr>)
        \<lparr>tokens = [''```'', ''x = 1  '', ''```''], err = None\<rparr>)
   = Some [''```'', ''x = 1'', ''```'']"
  by code_simp

subsection \<open>C7: a numbered list item and the end of a list\<close>



subsection \<open>C8: read and write failures\<close>



subsection \<open>C9: the quote prefix of a line of depth two\<close>



subsection \<open>C10: numbered list markers have one digit\<close>



end
